theory Spec2Isabelle
  imports Main "HOL-Library.Word"
begin

unbundle bit_operations_syntax

section \<open>Data model of \<open>scripts/xdp_gate.c\<close>\<close>

type_synonym u8 = "8 word"
type_synonym u16 = "16 word"
type_synonym u32 = "32 word"
type_synonym u64 = "64 word"

text \<open>
  \<open>struct xdp_md\<close>: the program only uses \<open>ctx->data\<close> and \<open>ctx->data_end\<close>, the
  bounds of the received frame. The frame is the list of the bytes in between, so
  \<open>data_end - data\<close> is its length and the byte at \<open>data + off\<close> is element \<open>off\<close>.
\<close>

type_synonym xdp_md = "u8 list"

text \<open>\<open>enum xdp_action\<close> of \<open>linux/bpf.h\<close>, the values a program may return.\<close>

datatype xdp_action = XDP_ABORTED | XDP_DROP | XDP_PASS | XDP_TX | XDP_REDIRECT

text \<open>
  \<open>gate_map\<close>: keys are \<open>__u32\<close>, values \<open>__u64\<close>. A lookup gives a pointer to the
  value or \<open>NULL\<close>; the program tests every pointer, so the map is partial here and
  every outcome of a lookup is a branch of the model. Key 0 holds \<open>drop_pct\<close>, key 1
  \<open>pkts_passed\<close>, key 2 \<open>pkts_dropped\<close>.
\<close>

type_synonym gate_map = "u32 \<rightharpoonup> u64"

text \<open>
  The byte order of the machine the program is compiled for: it decides how a
  two-byte header field is loaded and what \<open>__constant_htons\<close> does.
\<close>

datatype byte_order = Little_endian | Big_endian

text \<open>
  The \<open>return\<close> statement a run leaves through, in the order of the source: the five
  parsing exits and the port test (all \<open>return XDP_PASS\<close>), then the three exits of the
  gate itself.
\<close>

datatype exit_point =
    Eth_truncated
  | Not_ipv4
  | Ip_truncated
  | Not_udp
  | Udp_truncated
  | Other_port
  | Gate_open
  | Random_drop
  | Random_pass

record verdict =
  exit_at :: exit_point
  action :: xdp_action
  gate :: gate_map

subsection \<open>Header layout and constants\<close>

text \<open>
  Sizes and field offsets of \<open>struct ethhdr\<close>, \<open>struct iphdr\<close> and \<open>struct udphdr\<close>
  (\<open>linux/if_ether.h\<close>, \<open>linux/ip.h\<close>, \<open>linux/udp.h\<close>), and the two protocol numbers.
\<close>

definition sizeof_ethhdr :: nat where "sizeof_ethhdr = 14"
definition sizeof_iphdr :: nat where "sizeof_iphdr = 20"
definition sizeof_udphdr :: nat where "sizeof_udphdr = 8"

definition off_h_proto :: nat where "off_h_proto = 12"
definition off_ihl :: nat where "off_ihl = 0"
definition off_protocol :: nat where "off_protocol = 9"
definition off_dest :: nat where "off_dest = 2"

definition ETH_P_IP :: u16 where "ETH_P_IP = 0x0800"
definition IPPROTO_UDP :: u8 where "IPPROTO_UDP = 17"

subsection \<open>Memory reads\<close>

text \<open>
  A read of the frame is in range or it is a fault (\<open>None\<close>): nothing in the model
  says that the program stays inside the frame, that is proved.
\<close>

definition load8 :: "xdp_md \<Rightarrow> nat \<Rightarrow> u8 option" where
  "load8 ctx off = (if off < length ctx then Some (ctx ! off) else None)"

definition join16 :: "byte_order \<Rightarrow> u8 \<Rightarrow> u8 \<Rightarrow> u16" where
  "join16 e b0 b1 =
     (case e of
        Little_endian \<Rightarrow> ucast b0 OR push_bit 8 (ucast b1)
      | Big_endian \<Rightarrow> push_bit 8 (ucast b0) OR ucast b1)"

definition load16 :: "byte_order \<Rightarrow> xdp_md \<Rightarrow> nat \<Rightarrow> u16 option" where
  "load16 e ctx off =
     (case load8 ctx off of
        None \<Rightarrow> None
      | Some b0 \<Rightarrow>
          (case load8 ctx (off + 1) of
             None \<Rightarrow> None
           | Some b1 \<Rightarrow> Some (join16 e b0 b1)))"

text \<open>\<open>__constant_htons\<close>: swaps the two bytes on a little-endian machine.\<close>

definition htons :: "byte_order \<Rightarrow> u16 \<Rightarrow> u16" where
  "htons e x =
     (case e of
        Little_endian \<Rightarrow> push_bit 8 x OR drop_bit 8 x
      | Big_endian \<Rightarrow> x)"

text \<open>
  The bit field \<open>ihl\<close> is the low nibble of the first byte of the IP header, on
  either byte order.
\<close>

definition ihl_field :: "u8 \<Rightarrow> nat" where
  "ihl_field b = unat (b AND 0x0F)"

subsection \<open>The shared map\<close>

definition bpf_map_lookup_elem :: "gate_map \<Rightarrow> u32 \<Rightarrow> u64 option" where
  "bpf_map_lookup_elem m k = m k"

text \<open>
  \<open>if (cnt) __sync_fetch_and_add(cnt, 1)\<close> after the lookup of \<open>key\<close>: the addition
  is that of \<open>__u64\<close>.
\<close>

definition count_packet :: "gate_map \<Rightarrow> u32 \<Rightarrow> gate_map" where
  "count_packet m key =
     (case bpf_map_lookup_elem m key of
        None \<Rightarrow> m
      | Some cnt \<Rightarrow> m(key \<mapsto> cnt + 1))"

section \<open>The program\<close>

text \<open>Line 58: \<open>bpf_get_prandom_u32() % 100\<close>, on the helper's result.\<close>

definition rand_pct :: "u32 \<Rightarrow> u32" where
  "rand_pct prandom = prandom mod 100"

text \<open>
  Lines 46 to 71, reached by a LiDAR packet. \<open>prandom\<close> is what
  \<open>bpf_get_prandom_u32\<close> returns if it is called. The comparison
  \<open>rand < *drop_pct\<close> is made in \<open>__u64\<close>, and \<open>*drop_pct\<close> is only read where the
  pointer is not \<open>NULL\<close>.
\<close>

definition lidar_gate :: "u32 \<Rightarrow> gate_map \<Rightarrow> verdict" where
  "lidar_gate prandom m =
     (let drop_pct = bpf_map_lookup_elem m 0 in
      if drop_pct = None \<or> drop_pct = Some 0 then
        \<lparr>exit_at = Gate_open, action = XDP_PASS, gate = count_packet m 1\<rparr>
      else
        (let rand = rand_pct prandom in
         if (ucast rand :: u64) < the drop_pct then
           \<lparr>exit_at = Random_drop, action = XDP_DROP, gate = count_packet m 2\<rparr>
         else
           \<lparr>exit_at = Random_pass, action = XDP_PASS, gate = count_packet m 1\<rparr>))"

text \<open>A parsing exit: \<open>return XDP_PASS\<close> with the map untouched.\<close>

definition pass_through :: "exit_point \<Rightarrow> gate_map \<Rightarrow> verdict" where
  "pass_through x m = \<lparr>exit_at = x, action = XDP_PASS, gate = m\<rparr>"

text \<open>
  \<open>xdp_lidar_gate\<close>, lines 19 to 72. \<open>None\<close> is a read outside the frame.
\<close>

definition xdp_lidar_gate ::
    "byte_order \<Rightarrow> xdp_md \<Rightarrow> u32 \<Rightarrow> gate_map \<Rightarrow> verdict option" where
  "xdp_lidar_gate e ctx prandom m =
     (let eth = 0 in
      if eth + sizeof_ethhdr > length ctx then Some (pass_through Eth_truncated m)
      else
        (case load16 e ctx (eth + off_h_proto) of
           None \<Rightarrow> None
         | Some h_proto \<Rightarrow>
             if h_proto \<noteq> htons e ETH_P_IP then Some (pass_through Not_ipv4 m)
             else
               (let ip = eth + sizeof_ethhdr in
                if ip + sizeof_iphdr > length ctx then Some (pass_through Ip_truncated m)
                else
                  (case load8 ctx (ip + off_protocol) of
                     None \<Rightarrow> None
                   | Some protocol \<Rightarrow>
                       if protocol \<noteq> IPPROTO_UDP then Some (pass_through Not_udp m)
                       else
                         (case load8 ctx (ip + off_ihl) of
                            None \<Rightarrow> None
                          | Some vhl \<Rightarrow>
                              (let udp = ip + ihl_field vhl * 4 in
                               if udp + sizeof_udphdr > length ctx
                               then Some (pass_through Udp_truncated m)
                               else
                                 (case load16 e ctx (udp + off_dest) of
                                    None \<Rightarrow> None
                                  | Some dest \<Rightarrow>
                                      if dest \<noteq> htons e 7502
                                      then Some (pass_through Other_port m)
                                      else Some (lidar_gate prandom m))))))))"

section \<open>Gate-relevant frames\<close>

text \<open>
  The four checks of the parsing pipeline, stated on the bytes of the frame in network
  byte order. A frame is gate-relevant when it passes all four: it is long enough for
  an Ethernet header whose protocol field is IPv4 (\<open>08 00\<close>), long enough for the fixed
  IPv4 header whose protocol field is UDP (17), long enough for a UDP header right
  after the IPv4 header, whose length is four times the header-length field, and the
  destination port of that UDP header is 7502 (\<open>1D 4E\<close>).
\<close>

definition ihl_of :: "xdp_md \<Rightarrow> nat" where
  "ihl_of ctx = ihl_field (ctx ! 14)"

definition udp_offset :: "xdp_md \<Rightarrow> nat" where
  "udp_offset ctx = 14 + 4 * ihl_of ctx"

definition is_ipv4 :: "xdp_md \<Rightarrow> bool" where
  "is_ipv4 ctx = (14 \<le> length ctx \<and> ctx ! 12 = 0x08 \<and> ctx ! 13 = 0x00)"

definition is_udp :: "xdp_md \<Rightarrow> bool" where
  "is_udp ctx = (is_ipv4 ctx \<and> 34 \<le> length ctx \<and> ctx ! 23 = 17)"

definition has_udp_header :: "xdp_md \<Rightarrow> bool" where
  "has_udp_header ctx = (is_udp ctx \<and> udp_offset ctx + 8 \<le> length ctx)"

definition gate_relevant :: "xdp_md \<Rightarrow> bool" where
  "gate_relevant ctx =
     (has_udp_header ctx \<and>
      ctx ! (udp_offset ctx + 2) = 0x1D \<and> ctx ! (udp_offset ctx + 3) = 0x4E)"

text \<open>
  A well-formed Ethernet/IPv4/UDP packet addressed to port 7502: beyond the four
  checks, the version field of the IPv4 header (the high nibble of its first byte) is
  4 and the header length is at least the five words of the fixed header, so that the
  UDP header lies after the IPv4 header and not inside it.
\<close>

definition well_formed_lidar :: "xdp_md \<Rightarrow> bool" where
  "well_formed_lidar ctx =
     (gate_relevant ctx \<and> drop_bit 4 (ctx ! 14) = 4 \<and> 5 \<le> ihl_of ctx)"

text \<open>The frame with the two bytes of the UDP destination port replaced by \<open>port\<close>.\<close>

definition with_dest_port :: "xdp_md \<Rightarrow> u16 \<Rightarrow> xdp_md" where
  "with_dest_port ctx port =
     ctx[udp_offset ctx + 2 := ucast (drop_bit 8 port), udp_offset ctx + 3 := ucast port]"

text \<open>The residues of line 58: the helper results that give the draw \<open>k\<close>.\<close>

definition draws_giving :: "u32 \<Rightarrow> u32 set" where
  "draws_giving k = {prandom. rand_pct prandom = k}"

section \<open>Sample frames and maps\<close>

text \<open>
  A 42-byte LiDAR packet: Ethernet header with protocol IPv4, a 20-byte IPv4 header
  (\<open>ihl = 5\<close>) with protocol UDP, a UDP header with destination port 7502.
\<close>

definition lidar_frame :: xdp_md where
  "lidar_frame =
     [0, 0, 0, 0, 0, 0, 0, 0, 0, 0, 0, 0, 0x08, 0x00,
      0x45, 0, 0, 0, 0, 0, 0, 0, 0, 17, 0, 0, 0, 0, 0, 0, 0, 0, 0, 0,
      0, 0, 0x1D, 0x4E, 0, 0, 0, 0]"

text \<open>
  A 34-byte frame whose IPv4 header says \<open>ihl = 0\<close> and carries \<open>1D 4E\<close> in its
  total-length field (bytes 16 and 17 of the frame); there is no UDP header at all.
\<close>

definition tiny_ihl_frame :: xdp_md where
  "tiny_ihl_frame =
     [0, 0, 0, 0, 0, 0, 0, 0, 0, 0, 0, 0, 0x08, 0x00,
      0x40, 0, 0x1D, 0x4E, 0, 0, 0, 0, 0, 17, 0, 0, 0, 0, 0, 0, 0, 0, 0, 0]"

text \<open>An ARP request (protocol \<open>08 06\<close>), 42 bytes.\<close>

definition arp_frame :: xdp_md where
  "arp_frame =
     [0xFF, 0xFF, 0xFF, 0xFF, 0xFF, 0xFF, 0, 0, 0, 0, 0, 1, 0x08, 0x06,
      0, 1, 8, 0, 6, 4, 0, 1, 0, 0, 0, 0, 0, 1, 10, 0, 0, 1,
      0, 0, 0, 0, 0, 0, 10, 0, 0, 2]"

text \<open>
  The map as the program declares it, an array of \<open>max_entries = 4\<close> values: every
  key below 4 is present.
\<close>

definition array_map :: "u64 \<Rightarrow> u64 \<Rightarrow> u64 \<Rightarrow> gate_map" where
  "array_map drop_pct passed dropped =
     [0 \<mapsto> drop_pct, 1 \<mapsto> passed, 2 \<mapsto> dropped, 3 \<mapsto> 0]"

text \<open>A map in which the lookup of key 0 fails.\<close>

definition unconfigured_map :: "u64 \<Rightarrow> u64 \<Rightarrow> gate_map" where
  "unconfigured_map passed dropped = [1 \<mapsto> passed, 2 \<mapsto> dropped]"

section \<open>Two-byte fields\<close>

lemma join16_be: "join16 Big_endian b0 b1 = word_cat b0 b1"
  by (simp add: join16_def word_cat_eq_push_bit_or)

lemma join16_le: "join16 Little_endian b0 b1 = word_cat b1 b0"
  by (simp add: join16_def word_cat_eq_push_bit_or or.commute)

lemma cat16_hi: "ucast (drop_bit 8 (word_cat (a::u8) (b::u8) :: u16)) = a"
  by (rule bit_word_eqI) (auto simp: bit_ucast_iff bit_drop_bit_eq bit_word_cat_iff)

lemma cat16_lo: "ucast (word_cat (a::u8) (b::u8) :: u16) = b"
  by (rule bit_word_eqI) (auto simp: bit_ucast_iff bit_word_cat_iff)

lemma cat16_split: "word_cat (ucast (drop_bit 8 x) :: u8) (ucast x :: u8) = (x :: u16)"
  by (rule bit_word_eqI) (auto simp: bit_ucast_iff bit_drop_bit_eq bit_word_cat_iff)

lemma cat16_eq_iff:
  "(word_cat (a::u8) (b::u8) = (x::u16)) = (a = ucast (drop_bit 8 x) \<and> b = ucast x)"
  using cat16_hi [of a b] cat16_lo [of a b] cat16_split [of x] by auto

lemma cat16_inj:
  "((word_cat (a::u8) (b::u8) :: u16) = word_cat a' b') = (a = a' \<and> b = b')"
  by (metis cat16_hi cat16_lo)

text \<open>
  The comparison of a loaded field with \<open>__constant_htons c\<close> compares the two bytes
  of the frame with the bytes of \<open>c\<close> in network order, whatever the byte order of the
  machine.
\<close>

lemma join16_htons:
  "(join16 e b0 b1 = htons e c) = (b0 = ucast (drop_bit 8 c) \<and> b1 = ucast c)"
proof (cases e)
  case Little_endian
  have "htons Little_endian c = word_cat (ucast c :: u8) (ucast (drop_bit 8 c) :: u8)"
    unfolding htons_def
    by (rule bit_word_eqI)
       (auto simp: bit_ucast_iff bit_drop_bit_eq bit_push_bit_iff bit_or_iff
                   bit_word_cat_iff dest: bit_imp_le_length)
  then show ?thesis
    using Little_endian by (auto simp: join16_le cat16_inj)
next
  case Big_endian
  then show ?thesis
    by (auto simp: join16_be cat16_eq_iff htons_def)
qed

lemma join16_ETH_P_IP:
  "(join16 e b0 b1 = htons e ETH_P_IP) = (b0 = 0x08 \<and> b1 = 0x00)"
proof -
  have "(ucast (drop_bit 8 (0x0800 :: u16)) :: u8) = 0x08" by simp
  moreover have "(ucast (0x0800 :: u16) :: u8) = 0x00" by simp
  ultimately show ?thesis by (simp only: join16_htons ETH_P_IP_def)
qed

lemma join16_7502:
  "(join16 e b0 b1 = htons e 7502) = (b0 = 0x1D \<and> b1 = 0x4E)"
proof -
  have "(ucast (drop_bit 8 (7502 :: u16)) :: u8) = 0x1D" by simp
  moreover have "(ucast (7502 :: u16) :: u8) = 0x4E" by simp
  ultimately show ?thesis by (simp only: join16_htons)
qed

lemma load16_in_range:
  "off + 1 < length ctx \<Longrightarrow> load16 e ctx off = Some (join16 e (ctx ! off) (ctx ! (off + 1)))"
  by (simp add: load16_def load8_def)


section \<open>What a run does\<close>

text \<open>
  The program never reads outside the frame, and its result depends on the frame only
  through the four checks: it leaves through the first check that fails, and runs the
  gate when none does.
\<close>

lemma xdp_lidar_gate_run:
  "xdp_lidar_gate e ctx prandom m =
     Some (if length ctx < 14 then pass_through Eth_truncated m
           else if \<not> is_ipv4 ctx then pass_through Not_ipv4 m
           else if length ctx < 34 then pass_through Ip_truncated m
           else if \<not> is_udp ctx then pass_through Not_udp m
           else if \<not> has_udp_header ctx then pass_through Udp_truncated m
           else if \<not> gate_relevant ctx then pass_through Other_port m
           else lidar_gate prandom m)"
  unfolding xdp_lidar_gate_def Let_def sizeof_ethhdr_def sizeof_iphdr_def sizeof_udphdr_def
    off_h_proto_def off_ihl_def off_protocol_def off_dest_def
  by (auto simp: load16_in_range load8_def join16_ETH_P_IP join16_7502 is_ipv4_def is_udp_def
      has_udp_header_def gate_relevant_def udp_offset_def ihl_of_def IPPROTO_UDP_def
      mult.commute)

lemma gate_relevant_run:
  "gate_relevant ctx \<Longrightarrow> xdp_lidar_gate e ctx prandom m = Some (lidar_gate prandom m)"
  by (auto simp: xdp_lidar_gate_run gate_relevant_def has_udp_header_def is_udp_def is_ipv4_def)

lemma count_packet_apply:
  "count_packet m k k' = (if k' = k then map_option (\<lambda>c. c + 1) (m k) else m k')"
  by (simp add: count_packet_def bpf_map_lookup_elem_def split: option.splits)

lemma gate_lidar_gate:
  "gate (lidar_gate prandom m) = count_packet m 1 \<or>
   gate (lidar_gate prandom m) = count_packet m 2"
  by (simp add: lidar_gate_def Let_def)

lemma gate_run:
  "\<exists>v. xdp_lidar_gate e ctx prandom m = Some v \<and>
       (gate v = m \<or> gate v = count_packet m 1 \<or> gate v = count_packet m 2)"
  using gate_lidar_gate [of prandom m] by (auto simp: xdp_lidar_gate_run pass_through_def)

text \<open>The sample LiDAR packet is well-formed: version 4, \<open>ihl = 5\<close>.\<close>

lemma well_formed_lidar_frame: "well_formed_lidar lidar_frame"
  by code_simp

subsection \<open>The gate\<close>

lemma unat_ucast_32_64: "unat (ucast (x :: u32) :: u64) = unat x"
proof -
  have "unat x < 2 ^ 32" using unsigned_less [of x, where ?'a = nat] by simp
  then have "unat x < 2 ^ 64" by simp
  then show ?thesis by (simp add: unsigned_ucast_eq take_bit_nat_eq_self del: unsigned_less)
qed

lemma rand_pct_less: "unat (ucast (rand_pct prandom) :: u64) < 100"
  by (simp add: unat_ucast_32_64 rand_pct_def unat_mod)

lemma lidar_gate_open:
  "m 0 = None \<or> m 0 = Some 0 \<Longrightarrow>
   lidar_gate prandom m = \<lparr>exit_at = Gate_open, action = XDP_PASS, gate = count_packet m 1\<rparr>"
  by (auto simp: lidar_gate_def bpf_map_lookup_elem_def)

lemma lidar_gate_full:
  assumes "m 0 = Some drop_pct" and "100 \<le> drop_pct"
  shows "lidar_gate prandom m =
           \<lparr>exit_at = Random_drop, action = XDP_DROP, gate = count_packet m 2\<rparr>"
proof -
  have "unat (100 :: u64) \<le> unat drop_pct"
    using assms(2) by (simp only: word_le_nat_alt)
  then have "(ucast (rand_pct prandom) :: u64) < drop_pct"
    using rand_pct_less [of prandom] by (simp add: word_less_nat_alt)
  moreover have "drop_pct \<noteq> 0"
    using assms(2) by auto
  ultimately show ?thesis
    using assms(1) by (simp add: lidar_gate_def bpf_map_lookup_elem_def)
qed

lemma u64_succ:
  assumes "cnt \<noteq> (- 1 :: u64)"
  shows "cnt \<le> cnt + 1" and "unat (cnt + 1) = unat cnt + 1"
proof -
  have "1 + cnt \<noteq> 0"
    using assms unfolding eq_neg_iff_add_eq_0 by (simp add: add.commute)
  then show "unat (cnt + 1) = unat cnt + 1"
    using unatSuc [of cnt] by (simp add: add.commute)
  then show "cnt \<le> cnt + 1" by (simp add: word_le_nat_alt)
qed

subsection \<open>Rewriting the destination port\<close>

lemma udp_offset_with_dest_port [simp]:
  "udp_offset (with_dest_port ctx port) = udp_offset ctx"
  by (simp add: with_dest_port_def udp_offset_def ihl_of_def)

lemma length_with_dest_port [simp]:
  "length (with_dest_port ctx port) = length ctx"
  by (simp add: with_dest_port_def)

text \<open>
  The port bytes sit at offsets \<open>16 + 4 * ihl\<close> and \<open>17 + 4 * ihl\<close>: they are never
  bytes 12, 13, 14 or 23, so the three earlier checks see the same values.
\<close>

lemma has_udp_header_with_dest_port:
  "has_udp_header (with_dest_port ctx port) = has_udp_header ctx"
proof -
  have "with_dest_port ctx port ! 12 = ctx ! 12" "with_dest_port ctx port ! 13 = ctx ! 13"
    by (simp_all add: with_dest_port_def udp_offset_def)
  moreover have "with_dest_port ctx port ! 23 = ctx ! 23"
  proof -
    have "udp_offset ctx + 2 \<noteq> 23" "udp_offset ctx + 3 \<noteq> 23"
      unfolding udp_offset_def by presburger+
    then show ?thesis by (simp add: with_dest_port_def)
  qed
  ultimately show ?thesis
    by (simp add: has_udp_header_def is_udp_def is_ipv4_def)
qed

lemma dest_port_with_dest_port:
  assumes "has_udp_header ctx"
  shows "with_dest_port ctx port ! (udp_offset ctx + 2) = ucast (drop_bit 8 port)"
    and "with_dest_port ctx port ! (udp_offset ctx + 3) = ucast port"
  using assms by (simp_all add: with_dest_port_def has_udp_header_def)

lemma hi_7502: "(ucast (drop_bit 8 (7502 :: u16)) :: u8) = 0x1D"
  by simp

lemma lo_7502: "(ucast (7502 :: u16) :: u8) = 0x4E"
  by simp

lemma port_bytes_7502:
  "((ucast (drop_bit 8 port) :: u8) = 0x1D \<and> (ucast port :: u8) = 0x4E) = (port = (7502 :: u16))"
proof
  assume a: "(ucast (drop_bit 8 port) :: u8) = 0x1D \<and> (ucast port :: u8) = 0x4E"
  have "word_cat (0x1D :: u8) (0x4E :: u8) = (7502 :: u16)"
    by (simp only: cat16_eq_iff hi_7502 lo_7502 simp_thms)
  then show "port = 7502"
    using a cat16_split [of port] by metis
next
  assume "port = 7502"
  then show "(ucast (drop_bit 8 port) :: u8) = 0x1D \<and> (ucast port :: u8) = 0x4E"
    by (simp only: hi_7502 lo_7502 simp_thms)
qed

lemma gate_relevant_with_dest_port:
  assumes "has_udp_header ctx"
  shows "gate_relevant (with_dest_port ctx port) = (port = 7502)"
  using assms
  by (simp only: gate_relevant_def has_udp_header_with_dest_port udp_offset_with_dest_port
      dest_port_with_dest_port [OF assms] port_bytes_7502 simp_thms)

lemma with_dest_port_7502:
  assumes "gate_relevant ctx"
  shows "with_dest_port ctx 7502 = ctx"
proof -
  have "ctx[udp_offset ctx + 2 := 0x1D] = ctx"
    using assms list_update_id [of ctx "udp_offset ctx + 2"]
    by (simp only: gate_relevant_def)
  moreover have "ctx[udp_offset ctx + 3 := 0x4E] = ctx"
    using assms list_update_id [of ctx "udp_offset ctx + 3"]
    by (simp only: gate_relevant_def)
  ultimately show ?thesis
    by (simp only: with_dest_port_def hi_7502 lo_7502)
qed

subsection \<open>Counting the draws\<close>

text \<open>
  \<open>2 ^ 32 = 42949672 * 100 + 96\<close>: the residues below 96 are hit once more than the
  four residues from 96 to 99.
\<close>

lemma residues_below:
  assumes "k < 100"
  shows "{n :: nat. n < 4294967296 \<and> n mod 100 = k} =
         (\<lambda>q. q * 100 + k) ` {..< (if k < 96 then 42949673 else 42949672)}"
proof (intro set_eqI iffI)
  fix n
  assume "n \<in> {n. n < 4294967296 \<and> n mod 100 = k}"
  then have n: "n < 4294967296" and k: "n mod 100 = k" by simp_all
  have eq: "n = (n div 100) * 100 + k" using k by presburger
  define q where "q = n div 100"
  have "n = q * 100 + k" using eq by (simp add: q_def)
  then have "q < (if k < 96 then 42949673 else 42949672)"
    using n assms by (simp split: if_splits)
  then have "n div 100 < (if k < 96 then 42949673 else 42949672)"
    by (simp only: q_def)
  then show "n \<in> (\<lambda>q. q * 100 + k) ` {..< (if k < 96 then 42949673 else 42949672)}"
    using eq by blast
next
  fix n
  assume "n \<in> (\<lambda>q. q * 100 + k) ` {..< (if k < 96 then 42949673 else 42949672)}"
  then obtain q where q: "q < (if k < 96 then 42949673 else 42949672)" and n: "n = q * 100 + k"
    by auto
  have "n < 4294967296" using q n assms by (cases "k < 96") simp_all
  moreover have "n mod 100 = k" using n assms by simp
  ultimately show "n \<in> {n. n < 4294967296 \<and> n mod 100 = k}" by simp
qed

lemma card_residues:
  assumes "k < 100"
  shows "card {n :: nat. n < 4294967296 \<and> n mod 100 = k} =
         (if k < 96 then 42949673 else 42949672)"
proof -
  have "inj_on (\<lambda>q :: nat. q * 100 + k) A" for A
    by (rule inj_onI) simp
  then show ?thesis
    by (simp only: residues_below [OF assms] card_image card_lessThan)
qed

lemma unat_draws_giving:
  "unat ` draws_giving k = {n. n < 4294967296 \<and> n mod 100 = unat k}"
proof (intro set_eqI iffI)
  fix n
  assume "n \<in> unat ` draws_giving k"
  then obtain x where x: "x mod 100 = k" and n: "n = unat x"
    by (auto simp: draws_giving_def rand_pct_def)
  have "unat x < 2 ^ 32" using unsigned_less [of x, where ?'a = nat] by simp
  moreover have "unat (x mod 100) = unat x mod 100" by (simp add: unat_mod)
  then have "unat x mod 100 = unat k" using x by simp
  ultimately show "n \<in> {n. n < 4294967296 \<and> n mod 100 = unat k}" using n by simp
next
  fix n
  assume "n \<in> {n. n < 4294967296 \<and> n mod 100 = unat k}"
  then have n: "n < 4294967296" and k: "n mod 100 = unat k" by simp_all
  have u: "unat (of_nat n :: u32) = n" using n by (simp add: unat_of_nat)
  have "unat ((of_nat n :: u32) mod 100) = unat k" using u k by (simp add: unat_mod)
  then have "(of_nat n :: u32) mod 100 = k" by (simp only: word_unat_eq_iff)
  then have "of_nat n \<in> draws_giving k" by (simp add: draws_giving_def rand_pct_def)
  then show "n \<in> unat ` draws_giving k" using u by (metis imageI)
qed

lemma card_draws_giving:
  "card (draws_giving k) =
     (if k < 96 then 42949673 else if k < 100 then 42949672 else 0)"
proof -
  have "inj_on (unat :: u32 \<Rightarrow> nat) (draws_giving k)"
    by (rule inj_onI) (simp add: word_unat_eq_iff)
  then have c: "card (draws_giving k) = card {n. n < 4294967296 \<and> n mod 100 = unat k}"
    by (simp only: unat_draws_giving [symmetric] card_image)
  show ?thesis
  proof (cases "k < 100")
    case True
    then have "unat k < 100" by (simp add: word_less_nat_alt)
    moreover have "(k < 96) = (unat k < 96)" by (simp add: word_less_nat_alt)
    ultimately show ?thesis using True c card_residues [of "unat k"] by simp
  next
    case False
    then have "100 \<le> unat k" by (simp add: word_less_nat_alt)
    then have "{n. n < 4294967296 \<and> n mod 100 = unat k} = {}"
      using mod_less_divisor [of 100] by (auto simp del: mod_less_divisor)
    moreover have "\<not> k < 96" using False by (simp add: word_less_nat_alt)
    ultimately show ?thesis using False c by simp
  qed
qed

section \<open>The claims\<close>

text \<open>
  C1. For every gate-relevant frame, if the lookup of key 0 (\<open>drop_pct\<close>) fails or
  gives 0, the program returns \<open>XDP_PASS\<close>, the counter at key 1 (\<open>pkts_passed\<close>) is
  incremented by exactly 1 and the counter at key 2 (\<open>pkts_dropped\<close>) is unchanged,
  whatever the byte order and the random number. The counter at key 1 is one that
  exists, as every key below 4 does in the array the program declares; the increment
  is that of \<open>__u64\<close>.
\<close>

theorem gate_open_passes:
  assumes "gate_relevant ctx" and "m 0 = None \<or> m 0 = Some 0" and "m 1 = Some passed"
  shows "\<exists>v. xdp_lidar_gate e ctx prandom m = Some v \<and> action v = XDP_PASS \<and>
             gate v 1 = Some (passed + 1) \<and> gate v 2 = m 2"
  using assms by (simp add: gate_relevant_run lidar_gate_open count_packet_apply)

theorem gate_open_passes_witness:
  "gate_relevant lidar_frame \<and>
   array_map 0 7 3 0 = Some 0 \<and> array_map 0 7 3 1 = Some 7 \<and>
   (\<exists>v. xdp_lidar_gate Little_endian lidar_frame 0 (array_map 0 7 3) = Some v \<and>
        action v = XDP_PASS \<and> gate v 1 = Some 8 \<and> gate v 2 = Some 3) \<and>
   unconfigured_map 7 3 0 = None \<and> unconfigured_map 7 3 1 = Some 7 \<and>
   (\<exists>v. xdp_lidar_gate Little_endian lidar_frame 0 (unconfigured_map 7 3) = Some v \<and>
        action v = XDP_PASS \<and> gate v 1 = Some 8 \<and> gate v 2 = Some 3)"
proof -
  have r: "gate_relevant lidar_frame" by code_simp
  have a: "array_map 0 7 3 0 = Some 0" by (simp add: array_map_def)
  have p: "array_map 0 7 3 1 = Some 7" by (simp add: array_map_def)
  have d: "array_map 0 7 3 2 = Some 3" by (simp add: array_map_def)
  have a': "unconfigured_map 7 3 0 = None" by (simp add: unconfigured_map_def)
  have p': "unconfigured_map 7 3 1 = Some 7" by (simp add: unconfigured_map_def)
  have d': "unconfigured_map 7 3 2 = Some 3" by (simp add: unconfigured_map_def)
  have "\<exists>v. xdp_lidar_gate Little_endian lidar_frame 0 (array_map 0 7 3) = Some v \<and>
        action v = XDP_PASS \<and> gate v 1 = Some (7 + 1) \<and> gate v 2 = array_map 0 7 3 2"
    using r a p by (intro gate_open_passes) simp_all
  moreover
  have "\<exists>v. xdp_lidar_gate Little_endian lidar_frame 0 (unconfigured_map 7 3) = Some v \<and>
        action v = XDP_PASS \<and> gate v 1 = Some (7 + 1) \<and> gate v 2 = unconfigured_map 7 3 2"
    using r a' p' by (intro gate_open_passes) simp_all
  ultimately show ?thesis using r a p d a' p' d' by simp
qed

text \<open>
  C2. For every gate-relevant frame, if key 0 holds 100 the program returns
  \<open>XDP_DROP\<close>, the counter at key 2 is incremented by exactly 1 and the counter at
  key 1 is unchanged, for every value of the random number and so for every draw in
  \<open>[0,100)\<close>. The counter at key 2 is one that exists.
\<close>

theorem gate_full_drops:
  assumes "gate_relevant ctx" and "m 0 = Some 100" and "m 2 = Some dropped"
  shows "\<exists>v. xdp_lidar_gate e ctx prandom m = Some v \<and> action v = XDP_DROP \<and>
             gate v 2 = Some (dropped + 1) \<and> gate v 1 = m 1"
  using assms lidar_gate_full [of m 100 prandom]
  by (simp add: gate_relevant_run count_packet_apply)

theorem gate_full_drops_witness:
  "gate_relevant lidar_frame \<and> array_map 100 7 3 0 = Some 100 \<and> array_map 100 7 3 2 = Some 3 \<and>
   (\<exists>v. xdp_lidar_gate Big_endian lidar_frame 99 (array_map 100 7 3) = Some v \<and>
        action v = XDP_DROP \<and> gate v 2 = Some 4 \<and> gate v 1 = Some 7)"
proof -
  have r: "gate_relevant lidar_frame" by code_simp
  have a: "array_map 100 7 3 0 = Some 100" by (simp add: array_map_def)
  have d: "array_map 100 7 3 2 = Some 3" by (simp add: array_map_def)
  have p: "array_map 100 7 3 1 = Some 7" by (simp add: array_map_def)
  have "\<exists>v. xdp_lidar_gate Big_endian lidar_frame 99 (array_map 100 7 3) = Some v \<and>
        action v = XDP_DROP \<and> gate v 2 = Some (3 + 1) \<and> gate v 1 = array_map 100 7 3 1"
    using r a d by (rule gate_full_drops)
  then show ?thesis using r a d p by simp
qed

text \<open>
  C3. For every frame that fails one of the four checks the program makes (too short
  at one of the three bounds checks, a protocol field other than IPv4, an IP protocol
  other than UDP, or bytes other than \<open>1D 4E\<close> at offset \<open>14 + 4 * ihl + 2\<close>), the
  program returns \<open>XDP_PASS\<close> and leaves the whole map, so both counters, unchanged,
  whatever key 0 holds. The program checks neither the version field nor that
  \<open>ihl\<close> is at least 5, so this is about the frames that fail its checks, not about
  every frame that is not a well-formed packet.
\<close>

theorem not_relevant_passes:
  assumes "\<not> gate_relevant ctx"
  shows "\<exists>v. xdp_lidar_gate e ctx prandom m = Some v \<and> action v = XDP_PASS \<and> gate v = m"
  using assms by (simp add: xdp_lidar_gate_run pass_through_def)

theorem not_relevant_passes_witness:
  "\<not> gate_relevant arp_frame \<and>
   (\<exists>v. xdp_lidar_gate Little_endian arp_frame 0 (array_map 100 7 3) = Some v \<and>
        action v = XDP_PASS \<and> gate v = array_map 100 7 3)"
proof -
  have n: "\<not> gate_relevant arp_frame" by code_simp
  show ?thesis
    using n not_relevant_passes [OF n, of Little_endian 0 "array_map 100 7 3"] by simp
qed

text \<open>
  C3 as stated fails: the sample frame with \<open>ihl = 0\<close> is not a well-formed
  Ethernet/IPv4/UDP packet (its 34 bytes leave no room for a UDP header after the
  IPv4 header), yet with \<open>drop_pct = 100\<close> the program returns \<open>XDP_DROP\<close> and the
  counter at key 2 goes from 3 to 4.
\<close>

theorem malformed_frame_gated:
  "\<not> well_formed_lidar tiny_ihl_frame \<and>
   length tiny_ihl_frame < sizeof_ethhdr + sizeof_iphdr + sizeof_udphdr \<and>
   xdp_lidar_gate Little_endian tiny_ihl_frame 0 (array_map 100 7 3) =
     Some \<lparr>exit_at = Random_drop, action = XDP_DROP, gate = array_map 100 7 4\<rparr> \<and>
   array_map 100 7 3 2 = Some 3 \<and> array_map 100 7 4 2 = Some 4"
proof -
  have i: "ihl_of tiny_ihl_frame = 0"
    by (simp add: ihl_of_def ihl_field_def tiny_ihl_frame_def)
  have w: "\<not> well_formed_lidar tiny_ihl_frame"
    by (simp add: well_formed_lidar_def i)
  have l: "length tiny_ihl_frame < sizeof_ethhdr + sizeof_iphdr + sizeof_udphdr"
    by (simp add: tiny_ihl_frame_def sizeof_ethhdr_def sizeof_iphdr_def sizeof_udphdr_def)
  have r: "gate_relevant tiny_ihl_frame"
    by (simp add: gate_relevant_def has_udp_header_def is_udp_def is_ipv4_def udp_offset_def i)
       (simp add: tiny_ihl_frame_def)
  have "count_packet (array_map 100 7 3) 2 = array_map 100 7 4"
    by (rule ext) (simp add: count_packet_apply array_map_def)
  moreover have z: "array_map 100 7 3 0 = Some 100" by (simp add: array_map_def)
  ultimately have run:
    "xdp_lidar_gate Little_endian tiny_ihl_frame 0 (array_map 100 7 3) =
       Some \<lparr>exit_at = Random_drop, action = XDP_DROP, gate = array_map 100 7 4\<rparr>"
    using lidar_gate_full [of "array_map 100 7 3" 100 0]
    by (simp add: gate_relevant_run [OF r])
  have "array_map 100 7 3 2 = Some 3" "array_map 100 7 4 2 = Some 4"
    by (simp_all add: array_map_def)
  then show ?thesis using w l run by simp
qed

text \<open>
  C4. At each of the three bounds checks (Ethernet header, fixed IPv4 header, UDP header
  at offset \<open>14 + 4 * ihl\<close>), a frame that reaches the check and is one byte shorter
  than the check requires leaves through that check's \<open>return XDP_PASS\<close> with the map
  unchanged, and a frame that reaches the check with exactly the required length does
  not leave through that check or an earlier one: the run goes on to what follows.
\<close>

theorem boundary_truncation:
  "(length f1 + 1 = sizeof_ethhdr \<longrightarrow>
      xdp_lidar_gate e f1 prandom m =
        Some \<lparr>exit_at = Eth_truncated, action = XDP_PASS, gate = m\<rparr>) \<and>
   (length f2 = sizeof_ethhdr \<longrightarrow>
      (\<exists>v. xdp_lidar_gate e f2 prandom m = Some v \<and> exit_at v \<noteq> Eth_truncated)) \<and>
   (is_ipv4 f3 \<and> length f3 + 1 = sizeof_ethhdr + sizeof_iphdr \<longrightarrow>
      xdp_lidar_gate e f3 prandom m =
        Some \<lparr>exit_at = Ip_truncated, action = XDP_PASS, gate = m\<rparr>) \<and>
   (is_ipv4 f4 \<and> length f4 = sizeof_ethhdr + sizeof_iphdr \<longrightarrow>
      (\<exists>v. xdp_lidar_gate e f4 prandom m = Some v \<and>
           exit_at v \<notin> {Eth_truncated, Not_ipv4, Ip_truncated})) \<and>
   (is_udp f5 \<and> length f5 + 1 = sizeof_ethhdr + 4 * ihl_of f5 + sizeof_udphdr \<longrightarrow>
      xdp_lidar_gate e f5 prandom m =
        Some \<lparr>exit_at = Udp_truncated, action = XDP_PASS, gate = m\<rparr>) \<and>
   (is_udp f6 \<and> length f6 = sizeof_ethhdr + 4 * ihl_of f6 + sizeof_udphdr \<longrightarrow>
      (\<exists>v. xdp_lidar_gate e f6 prandom m = Some v \<and>
           exit_at v \<notin> {Eth_truncated, Not_ipv4, Ip_truncated, Not_udp, Udp_truncated}))"
proof (intro conjI impI)
  assume "length f1 + 1 = sizeof_ethhdr"
  then show "xdp_lidar_gate e f1 prandom m =
        Some \<lparr>exit_at = Eth_truncated, action = XDP_PASS, gate = m\<rparr>"
    by (simp add: xdp_lidar_gate_run pass_through_def sizeof_ethhdr_def)
next
  assume "length f2 = sizeof_ethhdr"
  then show "\<exists>v. xdp_lidar_gate e f2 prandom m = Some v \<and> exit_at v \<noteq> Eth_truncated"
    by (simp add: xdp_lidar_gate_run pass_through_def sizeof_ethhdr_def)
next
  assume "is_ipv4 f3 \<and> length f3 + 1 = sizeof_ethhdr + sizeof_iphdr"
  then show "xdp_lidar_gate e f3 prandom m =
        Some \<lparr>exit_at = Ip_truncated, action = XDP_PASS, gate = m\<rparr>"
    by (simp add: xdp_lidar_gate_run pass_through_def sizeof_ethhdr_def sizeof_iphdr_def)
next
  assume "is_ipv4 f4 \<and> length f4 = sizeof_ethhdr + sizeof_iphdr"
  then show "\<exists>v. xdp_lidar_gate e f4 prandom m = Some v \<and>
           exit_at v \<notin> {Eth_truncated, Not_ipv4, Ip_truncated}"
    by (simp add: xdp_lidar_gate_run pass_through_def lidar_gate_def Let_def
        sizeof_ethhdr_def sizeof_iphdr_def)
next
  assume a: "is_udp f5 \<and> length f5 + 1 = sizeof_ethhdr + 4 * ihl_of f5 + sizeof_udphdr"
  then have "34 \<le> length f5" "is_ipv4 f5" "\<not> has_udp_header f5"
    by (simp_all add: is_udp_def has_udp_header_def udp_offset_def sizeof_ethhdr_def
        sizeof_udphdr_def)
  then show "xdp_lidar_gate e f5 prandom m =
        Some \<lparr>exit_at = Udp_truncated, action = XDP_PASS, gate = m\<rparr>"
    using a by (simp add: xdp_lidar_gate_run pass_through_def)
next
  assume a: "is_udp f6 \<and> length f6 = sizeof_ethhdr + 4 * ihl_of f6 + sizeof_udphdr"
  then have "34 \<le> length f6" "is_ipv4 f6" "has_udp_header f6"
    by (simp_all add: is_udp_def has_udp_header_def udp_offset_def sizeof_ethhdr_def
        sizeof_udphdr_def)
  then show "\<exists>v. xdp_lidar_gate e f6 prandom m = Some v \<and>
           exit_at v \<notin> {Eth_truncated, Not_ipv4, Ip_truncated, Not_udp, Udp_truncated}"
    using a by (simp add: xdp_lidar_gate_run pass_through_def lidar_gate_def Let_def)
qed

text \<open>
  The sample LiDAR packet cut to 13, 14, 33, 34 and 41 bytes, and whole (42 bytes).
\<close>

theorem boundary_truncation_witness:
  "length (take 13 lidar_frame) + 1 = sizeof_ethhdr \<and>
   length (take 14 lidar_frame) = sizeof_ethhdr \<and>
   is_ipv4 (take 33 lidar_frame) \<and>
   length (take 33 lidar_frame) + 1 = sizeof_ethhdr + sizeof_iphdr \<and>
   is_ipv4 (take 34 lidar_frame) \<and>
   length (take 34 lidar_frame) = sizeof_ethhdr + sizeof_iphdr \<and>
   is_udp (take 41 lidar_frame) \<and>
   length (take 41 lidar_frame) + 1 =
     sizeof_ethhdr + 4 * ihl_of (take 41 lidar_frame) + sizeof_udphdr \<and>
   is_udp lidar_frame \<and>
   length lidar_frame = sizeof_ethhdr + 4 * ihl_of lidar_frame + sizeof_udphdr \<and>
   xdp_lidar_gate Little_endian (take 13 lidar_frame) 0 (array_map 100 7 3) =
     Some \<lparr>exit_at = Eth_truncated, action = XDP_PASS, gate = array_map 100 7 3\<rparr> \<and>
   (\<exists>v. xdp_lidar_gate Little_endian (take 14 lidar_frame) 0 (array_map 100 7 3) = Some v \<and>
        exit_at v \<noteq> Eth_truncated) \<and>
   xdp_lidar_gate Little_endian (take 33 lidar_frame) 0 (array_map 100 7 3) =
     Some \<lparr>exit_at = Ip_truncated, action = XDP_PASS, gate = array_map 100 7 3\<rparr> \<and>
   (\<exists>v. xdp_lidar_gate Little_endian (take 34 lidar_frame) 0 (array_map 100 7 3) = Some v \<and>
        exit_at v \<notin> {Eth_truncated, Not_ipv4, Ip_truncated}) \<and>
   xdp_lidar_gate Little_endian (take 41 lidar_frame) 0 (array_map 100 7 3) =
     Some \<lparr>exit_at = Udp_truncated, action = XDP_PASS, gate = array_map 100 7 3\<rparr> \<and>
   (\<exists>v. xdp_lidar_gate Little_endian lidar_frame 0 (array_map 100 7 3) = Some v \<and>
        exit_at v \<notin> {Eth_truncated, Not_ipv4, Ip_truncated, Not_udp, Udp_truncated})"
proof -
  have h1: "length (take 13 lidar_frame) + 1 = sizeof_ethhdr" by code_simp
  have h2: "length (take 14 lidar_frame) = sizeof_ethhdr" by code_simp
  have h3: "is_ipv4 (take 33 lidar_frame) \<and>
            length (take 33 lidar_frame) + 1 = sizeof_ethhdr + sizeof_iphdr" by code_simp
  have h4: "is_ipv4 (take 34 lidar_frame) \<and>
            length (take 34 lidar_frame) = sizeof_ethhdr + sizeof_iphdr" by code_simp
  have h5: "is_udp (take 41 lidar_frame) \<and>
            length (take 41 lidar_frame) + 1 =
              sizeof_ethhdr + 4 * ihl_of (take 41 lidar_frame) + sizeof_udphdr" by code_simp
  have h6: "is_udp lidar_frame \<and>
            length lidar_frame = sizeof_ethhdr + 4 * ihl_of lidar_frame + sizeof_udphdr"
    by code_simp
  show ?thesis
    using h1 h2 h3 h4 h5 h6
      boundary_truncation [where ?f1.0 = "take 13 lidar_frame" and ?f2.0 = "take 14 lidar_frame"
        and ?f3.0 = "take 33 lidar_frame" and ?f4.0 = "take 34 lidar_frame"
        and ?f5.0 = "take 41 lidar_frame" and ?f6.0 = lidar_frame
        and e = Little_endian and prandom = 0 and m = "array_map 100 7 3"]
    by blast
qed

text \<open>
  C5. Take a gate-relevant frame, which has destination port 7502, and the frame that
  differs from it only in the two bytes of the destination port, set to any other port.
  On the second frame the program returns \<open>XDP_PASS\<close> through the port test and leaves
  the map unchanged, whatever key 0 holds and whatever the random number. Writing 7502
  gives the first frame back.
\<close>

theorem other_port_passes:
  assumes "gate_relevant ctx" and "port \<noteq> 7502"
  shows "with_dest_port ctx 7502 = ctx \<and>
         xdp_lidar_gate e (with_dest_port ctx port) prandom m =
           Some \<lparr>exit_at = Other_port, action = XDP_PASS, gate = m\<rparr>"
proof
  show "with_dest_port ctx 7502 = ctx"
    using assms(1) by (rule with_dest_port_7502)
next
  have h: "has_udp_header ctx" using assms(1) by (simp add: gate_relevant_def)
  then have "has_udp_header (with_dest_port ctx port)"
    by (simp add: has_udp_header_with_dest_port)
  moreover have "\<not> gate_relevant (with_dest_port ctx port)"
    using h assms(2) by (simp add: gate_relevant_with_dest_port)
  ultimately show "xdp_lidar_gate e (with_dest_port ctx port) prandom m =
           Some \<lparr>exit_at = Other_port, action = XDP_PASS, gate = m\<rparr>"
    by (auto simp: xdp_lidar_gate_run pass_through_def has_udp_header_def is_udp_def is_ipv4_def)
qed

theorem other_port_passes_witness:
  "gate_relevant lidar_frame \<and> (7503 :: u16) \<noteq> 7502 \<and>
   with_dest_port lidar_frame 7502 = lidar_frame \<and>
   xdp_lidar_gate Little_endian (with_dest_port lidar_frame 7503) 0 (array_map 100 7 3) =
     Some \<lparr>exit_at = Other_port, action = XDP_PASS, gate = array_map 100 7 3\<rparr>"
proof -
  have r: "gate_relevant lidar_frame" by code_simp
  have p: "(7503 :: u16) \<noteq> 7502" by simp
  show ?thesis
    using r p other_port_passes [OF r p, of Little_endian 0 "array_map 100 7 3"] by simp
qed

text \<open>
  C6. The draw is \<open>bpf_get_prandom_u32() % 100\<close>. It always lies in \<open>[0,100)\<close>, but
  with the helper's result uniform over the \<open>2 ^ 32\<close> values of \<open>__u32\<close> the residues
  are not equally likely: each residue below 96 comes from 42949673 helper results,
  each residue from 96 to 99 from 42949672, and no other value is ever drawn.
\<close>

theorem rand_pct_distribution:
  "rand_pct prandom < 100 \<and>
   card (draws_giving k) = (if k < 96 then 42949673 else if k < 100 then 42949672 else 0)"
proof
  have "unat (rand_pct prandom) < 100"
    by (simp add: rand_pct_def unat_mod)
  then show "rand_pct prandom < 100"
    by (simp add: word_less_nat_alt)
next
  show "card (draws_giving k) =
          (if k < 96 then 42949673 else if k < 100 then 42949672 else 0)"
    by (rule card_draws_giving)
qed

text \<open>
  C6 as stated fails: the residues 0 and 99 are drawn from different numbers of helper
  results.
\<close>

theorem rand_pct_not_uniform:
  "card (draws_giving 0) = 42949673 \<and> card (draws_giving 99) = 42949672"
  by (simp add: card_draws_giving)

text \<open>
  C7. Every run, on every frame and every map, leaves key 0 unchanged, and each of
  the counters at keys 1 and 2 is either unchanged or replaced by its successor in
  \<open>__u64\<close>. A counter that holds less than \<open>2 ^ 64 - 1\<close> (written \<open>- 1\<close> in \<open>__u64\<close>)
  therefore never decreases and grows by at most 1.
\<close>

theorem counters_step:
  assumes "key = 1 \<or> key = 2"
  shows "\<exists>v. xdp_lidar_gate e ctx prandom m = Some v \<and> gate v 0 = m 0 \<and>
           (gate v key = m key \<or> (\<exists>cnt. m key = Some cnt \<and> gate v key = Some (cnt + 1))) \<and>
           (\<forall>cnt. m key = Some cnt \<and> cnt \<noteq> - 1 \<longrightarrow>
              (\<exists>cnt'. gate v key = Some cnt' \<and> cnt \<le> cnt' \<and> unat cnt' \<le> unat cnt + 1))"
proof -
  obtain v where run: "xdp_lidar_gate e ctx prandom m = Some v"
    and g: "gate v = m \<or> gate v = count_packet m 1 \<or> gate v = count_packet m 2"
    using gate_run by blast
  have zero: "gate v 0 = m 0"
    using g by (auto simp: count_packet_apply)
  have step: "gate v key = m key \<or> (\<exists>cnt. m key = Some cnt \<and> gate v key = Some (cnt + 1))"
    using g by (cases "m key") (auto simp: count_packet_apply)
  have mono: "\<exists>cnt'. gate v key = Some cnt' \<and> cnt \<le> cnt' \<and> unat cnt' \<le> unat cnt + 1"
    if "m key = Some cnt" and "cnt \<noteq> - 1" for cnt
    using step that u64_succ [of cnt] by auto
  show ?thesis using run zero step mono by blast
qed

theorem counters_step_witness:
  "((1 :: u32) = 1 \<or> (1 :: u32) = 2) \<and> array_map 0 7 3 1 = Some 7 \<and> (7 :: u64) \<noteq> - 1 \<and>
   (\<exists>v cnt'. xdp_lidar_gate Little_endian lidar_frame 0 (array_map 0 7 3) = Some v \<and>
        gate v 0 = Some 0 \<and> gate v 1 = Some cnt' \<and> 7 \<le> cnt' \<and> unat cnt' \<le> 8)"
proof -
  have p: "array_map 0 7 3 1 = Some 7" and z: "array_map 0 7 3 0 = Some 0"
    by (simp_all add: array_map_def)
  have n: "(7 :: u64) \<noteq> - 1" by simp
  obtain v where run: "xdp_lidar_gate Little_endian lidar_frame 0 (array_map 0 7 3) = Some v"
    and zero: "gate v 0 = array_map 0 7 3 0"
    and mono: "\<forall>cnt. array_map 0 7 3 1 = Some cnt \<and> cnt \<noteq> - 1 \<longrightarrow>
              (\<exists>cnt'. gate v 1 = Some cnt' \<and> cnt \<le> cnt' \<and> unat cnt' \<le> unat cnt + 1)"
    using counters_step [of 1 Little_endian lidar_frame 0 "array_map 0 7 3"] by auto
  from mono p n obtain cnt' where
    "gate v 1 = Some cnt'" "7 \<le> cnt'" "unat cnt' \<le> unat (7 :: u64) + 1"
    by blast
  then show ?thesis using run zero z p n by auto
qed

text \<open>
  C7 as stated fails: on the sample LiDAR packet with the gate open and
  \<open>pkts_passed = 2 ^ 64 - 1\<close>, the run leaves 0 at key 1, which is less.
\<close>

theorem passed_count_wraps:
  "xdp_lidar_gate Little_endian lidar_frame 0 (array_map 0 0xFFFFFFFFFFFFFFFF 3) =
     Some \<lparr>exit_at = Gate_open, action = XDP_PASS, gate = array_map 0 0 3\<rparr> \<and>
   array_map 0 0xFFFFFFFFFFFFFFFF 3 1 = Some 0xFFFFFFFFFFFFFFFF \<and>
   array_map 0 0 3 1 = Some 0 \<and> (0 :: u64) < 0xFFFFFFFFFFFFFFFF"
proof -
  have r: "gate_relevant lidar_frame" by code_simp
  have "count_packet (array_map 0 0xFFFFFFFFFFFFFFFF 3) 1 = array_map 0 0 3"
    by (rule ext) (simp add: count_packet_apply array_map_def)
  moreover have "array_map 0 0xFFFFFFFFFFFFFFFF 3 0 = Some 0" by (simp add: array_map_def)
  ultimately show ?thesis
    by (simp add: gate_relevant_run [OF r] lidar_gate_open) (simp add: array_map_def)
qed

text \<open>
  C8. The program is total: on every frame, the empty one included, and every map, no
  read leaves the frame and the run returns exactly one action, \<open>XDP_PASS\<close> or
  \<open>XDP_DROP\<close>, never another value of \<open>enum xdp_action\<close>.
\<close>

theorem classify_total:
  "\<exists>v. xdp_lidar_gate e ctx prandom m = Some v \<and> (action v = XDP_PASS \<or> action v = XDP_DROP)"
  by (simp add: xdp_lidar_gate_run pass_through_def lidar_gate_def Let_def)

text \<open>
  C9. The header-length field is never compared with 5. The sample frame with
  \<open>ihl = 0\<close> passes both bounds checks; the two bytes compared with port 7502 are bytes
  16 and 17 of the frame, inside the fixed IPv4 header (bytes 14 to 33); with
  \<open>drop_pct = 100\<close> the frame is counted at key 2 and dropped.
\<close>

theorem ihl_not_validated:
  "ihl_of tiny_ihl_frame = 0 \<and>
   udp_offset tiny_ihl_frame + off_dest + 1 < sizeof_ethhdr + sizeof_iphdr \<and>
   xdp_lidar_gate e tiny_ihl_frame prandom (array_map 100 passed dropped) =
     Some \<lparr>exit_at = Random_drop, action = XDP_DROP,
           gate = array_map 100 passed (dropped + 1)\<rparr>"
proof -
  have i: "ihl_of tiny_ihl_frame = 0"
    by (simp add: ihl_of_def ihl_field_def tiny_ihl_frame_def)
  have r: "gate_relevant tiny_ihl_frame"
    by (simp add: gate_relevant_def has_udp_header_def is_udp_def is_ipv4_def udp_offset_def i)
       (simp add: tiny_ihl_frame_def)
  have "count_packet (array_map 100 passed dropped) 2 = array_map 100 passed (dropped + 1)"
    by (rule ext) (simp add: count_packet_apply array_map_def)
  moreover have "array_map 100 passed dropped 0 = Some 100" by (simp add: array_map_def)
  ultimately show ?thesis
    using i lidar_gate_full [of "array_map 100 passed dropped" 100 prandom]
    by (simp add: gate_relevant_run [OF r] udp_offset_def off_dest_def sizeof_ethhdr_def
        sizeof_iphdr_def)
qed

text \<open>
  C10. For every gate-relevant frame, if key 0 holds a value above 100 the program
  returns \<open>XDP_DROP\<close> and increments the counter at key 2 (one that exists) by exactly
  1, for every value of the random number: every draw is below 100.
\<close>

theorem gate_over_100_drops:
  assumes "gate_relevant ctx" and "m 0 = Some drop_pct" and "100 < drop_pct"
    and "m 2 = Some dropped"
  shows "\<exists>v. xdp_lidar_gate e ctx prandom m = Some v \<and> action v = XDP_DROP \<and>
             gate v 2 = Some (dropped + 1) \<and> gate v 1 = m 1"
  using assms lidar_gate_full [of m drop_pct prandom]
  by (simp add: gate_relevant_run count_packet_apply)

theorem gate_over_100_drops_witness:
  "gate_relevant lidar_frame \<and> array_map 250 7 3 0 = Some 250 \<and> (100 :: u64) < 250 \<and>
   array_map 250 7 3 2 = Some 3 \<and>
   (\<exists>v. xdp_lidar_gate Little_endian lidar_frame 99 (array_map 250 7 3) = Some v \<and>
        action v = XDP_DROP \<and> gate v 2 = Some 4 \<and> gate v 1 = Some 7)"
proof -
  have r: "gate_relevant lidar_frame" by code_simp
  have a: "array_map 250 7 3 0 = Some 250" by (simp add: array_map_def)
  have l: "(100 :: u64) < 250" by simp
  have d: "array_map 250 7 3 2 = Some 3" by (simp add: array_map_def)
  have p: "array_map 250 7 3 1 = Some 7" by (simp add: array_map_def)
  have "\<exists>v. xdp_lidar_gate Little_endian lidar_frame 99 (array_map 250 7 3) = Some v \<and>
        action v = XDP_DROP \<and> gate v 2 = Some (3 + 1) \<and> gate v 1 = array_map 250 7 3 1"
    using r a l d by (rule gate_over_100_drops)
  then show ?thesis using r a l d p by simp
qed

end
